theory Spec2Isabelle
  imports Main "HOL-Library.Word"
begin

section \<open>The VST3 loader shim (\<^verbatim>\<open>src/VST3Loader/main.cpp\<close>)\<close>

text \<open>
  The file defines one global, \<^verbatim>\<open>void* moduleHandle = nullptr;\<close>, declares
  \<^verbatim>\<open>extern bool InitModule ();\<close> and \<^verbatim>\<open>extern bool DeinitModule ();\<close>, and
  defines two functions:
  \<^verbatim>\<open>
  int run(int argc, char* argv[])
  {
      InitModule ();
      auto result = Steinberg::Vst::Validator (argc, argv).run ();
      DeinitModule ();
      return result;
  }

  int testVST3(void)
  {
      char* argv0 = (char *)"";
      char* argv1 = (char *)"/Users/pebble8888/Library/Audio/Plug-Ins/VST3/again.vst3";
      char* argv[2] = {argv0, argv1};
      return run(2, argv);
  }
  \<close>
  \<^verbatim>\<open>InitModule\<close>, \<^verbatim>\<open>DeinitModule\<close> and the class \<^verbatim>\<open>Steinberg::Vst::Validator\<close>
  are defined elsewhere; they are parameters of the model.
\<close>

subsection \<open>Data\<close>

text \<open>A \<^verbatim>\<open>void*\<close>: the null pointer or an address.\<close>

datatype pointer = nullptr | Address nat

text \<open>The C \<^verbatim>\<open>int\<close> of the platform: 32 bits.\<close>

type_synonym cint = "32 word"

text \<open>
  A C++ call either returns a value, or leaves by an exception that unwinds through the
  caller, or never comes back. The last two are the failures of a call.
\<close>

datatype failure = Thrown nat | NoReturn

type_synonym 'a outcome = "failure + 'a"

text \<open>
  What the external code can see and change: the global \<^verbatim>\<open>moduleHandle\<close>, which has
  external linkage, and the rest of the process, of an arbitrary type \<open>'w\<close>.
\<close>

type_synonym 'w globals = "pointer \<times> 'w"

type_synonym ('w, 'a) extern = "'w globals \<Rightarrow> 'a outcome \<times> 'w globals"

text \<open>
  The external entry points the shim calls. \<open>Validator\<close> is the constructor
  \<^verbatim>\<open>Validator (argc, argv)\<close>, yielding an object of type \<open>'v\<close>; \<open>Validator_run\<close> is the
  rest of the full expression \<^verbatim>\<open>Validator (argc, argv).run ()\<close>: the method call on that
  temporary, which is destroyed when the expression ends.
\<close>

record ('w, 'v) externals =
  InitModule :: "('w, bool) extern"
  Validator :: "cint \<Rightarrow> string list \<Rightarrow> ('w, 'v) extern"
  Validator_run :: "'v \<Rightarrow> ('w, cint) extern"
  DeinitModule :: "('w, bool) extern"

text \<open>The calls the shim makes, in the order it makes them, are logged.\<close>

datatype event =
    CallInitModule
  | ConstructValidator cint "string list"
  | CallValidatorRun
  | CallDeinitModule

record 'w machine =
  moduleHandle :: pointer
  world :: 'w
  trace :: "event list"

definition initial :: "'w \<Rightarrow> 'w machine" where
  "initial w = \<lparr>moduleHandle = nullptr, world = w, trace = []\<rparr>"

subsection \<open>Calls and sequencing\<close>

text \<open>
  An external call is logged when it is made; whatever it does to the globals is kept,
  whether it returns or not.
\<close>

definition call :: "event \<Rightarrow> ('w, 'a) extern \<Rightarrow> 'w machine \<Rightarrow> 'a outcome \<times> 'w machine" where
  "call ev f s =
     (case f (moduleHandle s, world s) of
        (r, (h, w)) \<Rightarrow> (r, \<lparr>moduleHandle = h, world = w, trace = trace s @ [ev]\<rparr>))"

text \<open>
  Statement sequencing: the second statement runs only when the first has returned. The
  shim installs no exception handler and owns no scoped guard object, so a failure of the
  first statement is the failure of the whole.
\<close>

definition seq ::
  "('s \<Rightarrow> 'a outcome \<times> 's) \<Rightarrow> ('a \<Rightarrow> 's \<Rightarrow> 'b outcome \<times> 's) \<Rightarrow> 's \<Rightarrow> 'b outcome \<times> 's" where
  "seq m k s = (case m s of (Inl x, s') \<Rightarrow> (Inl x, s') | (Inr a, s') \<Rightarrow> k a s')"

definition return_value :: "'a \<Rightarrow> 's \<Rightarrow> 'a outcome \<times> 's" where
  "return_value a s = (Inr a, s)"

definition call_InitModule :: "('w, 'v) externals \<Rightarrow> 'w machine \<Rightarrow> bool outcome \<times> 'w machine" where
  "call_InitModule env = call CallInitModule (InitModule env)"

definition construct_Validator ::
  "('w, 'v) externals \<Rightarrow> cint \<Rightarrow> string list \<Rightarrow> 'w machine \<Rightarrow> 'v outcome \<times> 'w machine" where
  "construct_Validator env argc argv = call (ConstructValidator argc argv) (Validator env argc argv)"

definition call_Validator_run ::
  "('w, 'v) externals \<Rightarrow> 'v \<Rightarrow> 'w machine \<Rightarrow> cint outcome \<times> 'w machine" where
  "call_Validator_run env v = call CallValidatorRun (Validator_run env v)"

definition call_DeinitModule :: "('w, 'v) externals \<Rightarrow> 'w machine \<Rightarrow> bool outcome \<times> 'w machine" where
  "call_DeinitModule env = call CallDeinitModule (DeinitModule env)"

subsection \<open>The two functions of the shim\<close>

text \<open>The full expression \<^verbatim>\<open>Steinberg::Vst::Validator (argc, argv).run ()\<close>.\<close>

definition validator_expression ::
  "('w, 'v) externals \<Rightarrow> cint \<Rightarrow> string list \<Rightarrow> 'w machine \<Rightarrow> cint outcome \<times> 'w machine" where
  "validator_expression env argc argv =
     seq (construct_Validator env argc argv) (\<lambda>v. call_Validator_run env v)"

definition run ::
  "('w, 'v) externals \<Rightarrow> cint \<Rightarrow> string list \<Rightarrow> 'w machine \<Rightarrow> cint outcome \<times> 'w machine" where
  "run env argc argv =
     seq (call_InitModule env) (\<lambda>_.
     seq (validator_expression env argc argv) (\<lambda>result.
     seq (call_DeinitModule env) (\<lambda>_.
     return_value result)))"

definition testVST3 :: "('w, 'v) externals \<Rightarrow> 'w machine \<Rightarrow> cint outcome \<times> 'w machine" where
  "testVST3 env =
     (let argv0 = '''';
          argv1 = ''/Users/pebble8888/Library/Audio/Plug-Ins/VST3/again.vst3'';
          argv = [argv0, argv1]
      in run env 2 argv)"

subsection \<open>Observations on an execution\<close>

text \<open>The calls made by one execution of \<open>run\<close>: what it appended to the log.\<close>

definition events_of_run ::
  "('w, 'v) externals \<Rightarrow> cint \<Rightarrow> string list \<Rightarrow> 'w machine \<Rightarrow> event list" where
  "events_of_run env argc argv s = drop (length (trace s)) (trace (snd (run env argc argv s)))"

subsection \<open>A sequence of calls into the shim\<close>

text \<open>
  A client may call the two functions any number of times, in any order. A call that throws
  can be caught by the client, which then goes on; after a call that never comes back nothing
  else happens.
\<close>

datatype shim_call = Run cint "string list" | TestVST3

fun perform :: "('w, 'v) externals \<Rightarrow> shim_call \<Rightarrow> 'w machine \<Rightarrow> cint outcome \<times> 'w machine" where
  "perform env (Run argc argv) s = run env argc argv s"
| "perform env TestVST3 s = testVST3 env s"

fun session :: "('w, 'v) externals \<Rightarrow> shim_call list \<Rightarrow> 'w machine \<Rightarrow> 'w machine" where
  "session env [] s = s"
| "session env (c # cs) s =
     (case perform env c s of
        (Inl NoReturn, s') \<Rightarrow> s'
      | (_, s') \<Rightarrow> session env cs s')"

subsection \<open>Conditions on the external calls an execution makes\<close>

text \<open>An external call, made on the globals \<open>g\<close>, that leaves \<^verbatim>\<open>moduleHandle\<close> as it found it.\<close>

definition leaves_moduleHandle :: "('w, 'a) extern \<Rightarrow> 'w globals \<Rightarrow> bool" where
  "leaves_moduleHandle f g \<longleftrightarrow> fst (snd (f g)) = fst g"

text \<open>
  Every external call made when \<^verbatim>\<open>run (argc, argv)\<close> is entered with the globals \<open>g0\<close>
  leaves \<^verbatim>\<open>moduleHandle\<close> as it found it. The calls are \<^verbatim>\<open>InitModule\<close> on \<open>g0\<close>, then
  the constructor, the \<open>run\<close> method and \<^verbatim>\<open>DeinitModule\<close>, each on the globals the call
  before it left and only when that call has returned.
\<close>

definition run_calls_leave_moduleHandle ::
  "('w, 'v) externals \<Rightarrow> cint \<Rightarrow> string list \<Rightarrow> 'w globals \<Rightarrow> bool" where
  "run_calls_leave_moduleHandle env argc argv g0 \<longleftrightarrow>
     leaves_moduleHandle (InitModule env) g0
     \<and> (case InitModule env g0 of
          (Inl x, g1) \<Rightarrow> True
        | (Inr b, g1) \<Rightarrow>
            leaves_moduleHandle (Validator env argc argv) g1
            \<and> (case Validator env argc argv g1 of
                 (Inl x, g2) \<Rightarrow> True
               | (Inr v, g2) \<Rightarrow>
                   leaves_moduleHandle (Validator_run env v) g2
                   \<and> (case Validator_run env v g2 of
                        (Inl x, g3) \<Rightarrow> True
                      | (Inr r, g3) \<Rightarrow> leaves_moduleHandle (DeinitModule env) g3)))"

text \<open>The same for every external call made during a sequence of calls into the shim.\<close>

fun calls_leave_moduleHandle ::
  "('w, 'v) externals \<Rightarrow> shim_call list \<Rightarrow> 'w machine \<Rightarrow> bool" where
  "calls_leave_moduleHandle env [] s = True"
| "calls_leave_moduleHandle env (c # cs) s =
     ((case c of
         Run argc argv \<Rightarrow>
           run_calls_leave_moduleHandle env argc argv (moduleHandle s, world s)
       | TestVST3 \<Rightarrow>
           run_calls_leave_moduleHandle env 2
             ['''', ''/Users/pebble8888/Library/Audio/Plug-Ins/VST3/again.vst3'']
             (moduleHandle s, world s))
      \<and> (case perform env c s of
            (Inl NoReturn, s') \<Rightarrow> True
          | (_, s') \<Rightarrow> calls_leave_moduleHandle env cs s'))"


subsection \<open>Sample external code\<close>

text \<open>
  Concrete entry points, on which the functions can be evaluated. The world is the number
  of module initialisations in force. The validator object keeps the first \<open>argc\<close>
  arguments; its \<open>run\<close> answers 0 when it got a program name and one path, 2 otherwise.
\<close>

definition plain_host :: "(nat, string list) externals" where
  "plain_host =
     \<lparr>InitModule = (\<lambda>(h, n). (Inr True, (h, Suc n))),
      Validator = (\<lambda>argc argv g. (Inr (take (unat argc) argv), g)),
      Validator_run = (\<lambda>v g. (Inr (if length v = 2 then 0 else 2), g)),
      DeinitModule = (\<lambda>(h, n). (Inr True, (h, n - 1)))\<rparr>"

text \<open>A module whose initialisation leaves by an exception.\<close>

definition unloadable_host :: "(nat, string list) externals" where
  "unloadable_host = plain_host\<lparr>InitModule := (\<lambda>g. (Inl (Thrown 4), g))\<rparr>"

text \<open>A validator whose constructor leaves by an exception.\<close>

definition refusing_host :: "(nat, string list) externals" where
  "refusing_host = plain_host\<lparr>Validator := (\<lambda>argc argv g. (Inl (Thrown 2), g))\<rparr>"

text \<open>A validator whose \<open>run\<close> method leaves by an exception.\<close>

definition aborting_host :: "(nat, string list) externals" where
  "aborting_host = plain_host\<lparr>Validator_run := (\<lambda>v g. (Inl (Thrown 1), g))\<rparr>"

text \<open>A module whose teardown never comes back.\<close>

definition stuck_host :: "(nat, string list) externals" where
  "stuck_host = plain_host\<lparr>DeinitModule := (\<lambda>g. (Inl NoReturn, g))\<rparr>"





text \<open>A module whose initialisation stores an address in \<^verbatim>\<open>moduleHandle\<close>.\<close>

definition storing_host :: "(nat, string list) externals" where
  "storing_host = plain_host\<lparr>InitModule := (\<lambda>(h, n). (Inr True, (Address 4096, Suc n)))\<rparr>"

text \<open>
  A module whose initialisation stores an address in \<^verbatim>\<open>moduleHandle\<close> and whose teardown
  clears it again, with a validator whose \<open>run\<close> method returns, and with one whose
  \<open>run\<close> method throws.
\<close>

definition restoring_host :: "(nat, string list) externals" where
  "restoring_host = storing_host\<lparr>DeinitModule := (\<lambda>(h, n). (Inr True, (nullptr, n - 1)))\<rparr>"

definition restoring_aborting_host :: "(nat, string list) externals" where
  "restoring_aborting_host = restoring_host\<lparr>Validator_run := (\<lambda>v g. (Inl (Thrown 1), g))\<rparr>"


section \<open>Properties\<close>

subsection \<open>Unfolding an execution\<close>

lemmas shim_defs = run_def seq_def call_def call_InitModule_def construct_Validator_def
  call_Validator_run_def call_DeinitModule_def validator_expression_def return_value_def
  events_of_run_def initial_def

lemma validator_expression_cases:
  "validator_expression env argc argv s1 =
     (case construct_Validator env argc argv s1 of
        (Inl x, s2) \<Rightarrow> (Inl x, s2)
      | (Inr v, s2) \<Rightarrow> call_Validator_run env v s2)"
  by (simp add: validator_expression_def seq_def split: prod.splits sum.splits)

lemma run_cases:
  "run env argc argv s =
     (case call_InitModule env s of
        (Inl x, s1) \<Rightarrow> (Inl x, s1)
      | (Inr b, s1) \<Rightarrow>
          (case construct_Validator env argc argv s1 of
             (Inl x, s2) \<Rightarrow> (Inl x, s2)
           | (Inr v, s2) \<Rightarrow>
               (case call_Validator_run env v s2 of
                  (Inl x, s3) \<Rightarrow> (Inl x, s3)
                | (Inr result, s3) \<Rightarrow>
                    (case call_DeinitModule env s3 of
                       (Inl x, s4) \<Rightarrow> (Inl x, s4)
                     | (Inr b', s4) \<Rightarrow> (Inr result, s4)))))"
  by (simp add: run_def seq_def validator_expression_def return_value_def
      split: prod.splits sum.splits)

text \<open>
  The five ways through \<open>run\<close>, in terms of what the external code answers: each call is
  made on the globals the call before it left, and the first call that does not return ends
  the execution.
\<close>

lemma run_when_InitModule_fails:
  assumes "InitModule env (moduleHandle s, world s) = (Inl x, g1)"
  shows "run env argc argv s =
    (Inl x, \<lparr>moduleHandle = fst g1, world = snd g1, trace = trace s @ [CallInitModule]\<rparr>)"
  using assms by (cases g1) (simp add: shim_defs)

lemma run_when_constructor_fails:
  assumes "InitModule env (moduleHandle s, world s) = (Inr b, g1)"
    and "Validator env argc argv g1 = (Inl x, g2)"
  shows "run env argc argv s =
    (Inl x, \<lparr>moduleHandle = fst g2, world = snd g2,
             trace = trace s @ [CallInitModule, ConstructValidator argc argv]\<rparr>)"
  using assms by (cases g1, cases g2) (simp add: shim_defs)

lemma run_when_method_fails:
  assumes "InitModule env (moduleHandle s, world s) = (Inr b, g1)"
    and "Validator env argc argv g1 = (Inr v, g2)"
    and "Validator_run env v g2 = (Inl x, g3)"
  shows "run env argc argv s =
    (Inl x, \<lparr>moduleHandle = fst g3, world = snd g3,
             trace = trace s @ [CallInitModule, ConstructValidator argc argv,
                                CallValidatorRun]\<rparr>)"
  using assms by (cases g1, cases g2, cases g3) (simp add: shim_defs)

lemma run_when_DeinitModule_fails:
  assumes "InitModule env (moduleHandle s, world s) = (Inr b, g1)"
    and "Validator env argc argv g1 = (Inr v, g2)"
    and "Validator_run env v g2 = (Inr r, g3)"
    and "DeinitModule env g3 = (Inl x, g4)"
  shows "run env argc argv s =
    (Inl x, \<lparr>moduleHandle = fst g4, world = snd g4,
             trace = trace s @ [CallInitModule, ConstructValidator argc argv,
                                CallValidatorRun, CallDeinitModule]\<rparr>)"
  using assms by (cases g1, cases g2, cases g3, cases g4) (simp add: shim_defs)

lemma run_when_all_return:
  assumes "InitModule env (moduleHandle s, world s) = (Inr b, g1)"
    and "Validator env argc argv g1 = (Inr v, g2)"
    and "Validator_run env v g2 = (Inr r, g3)"
    and "DeinitModule env g3 = (Inr b', g4)"
  shows "run env argc argv s =
    (Inr r, \<lparr>moduleHandle = fst g4, world = snd g4,
             trace = trace s @ [CallInitModule, ConstructValidator argc argv,
                                CallValidatorRun, CallDeinitModule]\<rparr>)"
  using assms by (cases g1, cases g2, cases g3, cases g4) (simp add: shim_defs)

lemma InitModule_logged_once:
  "count_list (events_of_run env argc argv s) CallInitModule = 1"
  by (simp add: shim_defs split: prod.splits sum.splits)

lemma events_cases:
  "events_of_run env argc argv s =
     (case call_InitModule env s of
        (Inl x, s1) \<Rightarrow> [CallInitModule]
      | (Inr b, s1) \<Rightarrow>
          (case construct_Validator env argc argv s1 of
             (Inl x, s2) \<Rightarrow> [CallInitModule, ConstructValidator argc argv]
           | (Inr v, s2) \<Rightarrow>
               (case call_Validator_run env v s2 of
                  (Inl x, s3) \<Rightarrow> [CallInitModule, ConstructValidator argc argv, CallValidatorRun]
                | (Inr result, s3) \<Rightarrow>
                    [CallInitModule, ConstructValidator argc argv, CallValidatorRun,
                     CallDeinitModule])))"
  unfolding events_of_run_def run_cases
  by (auto simp: call_InitModule_def construct_Validator_def call_Validator_run_def
      call_DeinitModule_def call_def split: prod.splits sum.splits)

lemma run_reaching_DeinitModule:
  assumes "InitModule env (moduleHandle s, world s) = (Inr b, g1)"
    and "Validator env argc argv g1 = (Inr v, g2)"
    and "Validator_run env v g2 = (Inr r, g3)"
  shows "run env argc argv s =
    (case fst (DeinitModule env g3) of Inl y \<Rightarrow> Inl y | Inr b' \<Rightarrow> Inr r,
     \<lparr>moduleHandle = fst (snd (DeinitModule env g3)),
      world = snd (snd (DeinitModule env g3)),
      trace = trace s @ [CallInitModule, ConstructValidator argc argv,
                         CallValidatorRun, CallDeinitModule]\<rparr>)"
proof -
  obtain r4 g4 where d: "DeinitModule env g3 = (r4, g4)"
    by (cases "DeinitModule env g3") blast
  show ?thesis
  proof (cases r4)
    case (Inl y)
    with d have "DeinitModule env g3 = (Inl y, g4)" by simp
    from run_when_DeinitModule_fails [OF assms this] this show ?thesis by simp
  next
    case (Inr b')
    with d have "DeinitModule env g3 = (Inr b', g4)" by simp
    from run_when_all_return [OF assms this] this show ?thesis by simp
  qed
qed

lemma run_returns_only_after_teardown:
  assumes "run env argc argv s = (Inr r, s')"
  shows "\<exists>b g1 v g2 g3 b'.
           InitModule env (moduleHandle s, world s) = (Inr b, g1)
           \<and> Validator env argc argv g1 = (Inr v, g2)
           \<and> Validator_run env v g2 = (Inr r, g3)
           \<and> DeinitModule env g3 = (Inr b', (moduleHandle s', world s'))"
proof -
  obtain r1 g1 where i: "InitModule env (moduleHandle s, world s) = (r1, g1)"
    by (cases "InitModule env (moduleHandle s, world s)") blast
  show ?thesis
  proof (cases r1)
    case (Inl x)
    with i run_when_InitModule_fails [of env s x g1 argc argv] assms show ?thesis by simp
  next
    case (Inr b)
    with i have i': "InitModule env (moduleHandle s, world s) = (Inr b, g1)" by simp
    obtain r2 g2 where c: "Validator env argc argv g1 = (r2, g2)"
      by (cases "Validator env argc argv g1") blast
    show ?thesis
    proof (cases r2)
      case (Inl x)
      with c run_when_constructor_fails [OF i', of argc argv x g2] assms show ?thesis by simp
    next
      case (Inr v)
      with c have c': "Validator env argc argv g1 = (Inr v, g2)" by simp
      obtain r3 g3 where m: "Validator_run env v g2 = (r3, g3)"
        by (cases "Validator_run env v g2") blast
      show ?thesis
      proof (cases r3)
        case (Inl x)
        with m run_when_method_fails [OF i' c', of x g3] assms show ?thesis by simp
      next
        case (Inr r')
        with m have m': "Validator_run env v g2 = (Inr r', g3)" by simp
        obtain r4 g4 where d: "DeinitModule env g3 = (r4, g4)"
          by (cases "DeinitModule env g3") blast
        show ?thesis
        proof (cases r4)
          case (Inl x)
          with d run_when_DeinitModule_fails [OF i' c' m', of x g4] assms
          show ?thesis by simp
        next
          case (Inr b')
          with d have d': "DeinitModule env g3 = (Inr b', g4)" by simp
          from run_when_all_return [OF i' c' m' d'] assms
          have "r' = r" and "s' = \<lparr>moduleHandle = fst g4, world = snd g4,
             trace = trace s @ [CallInitModule, ConstructValidator argc argv,
                                CallValidatorRun, CallDeinitModule]\<rparr>"
            by simp_all
          with m' d' have "Validator_run env v g2 = (Inr r, g3)"
            and "DeinitModule env g3 = (Inr b', (moduleHandle s', world s'))"
            by simp_all
          with i' c' show ?thesis by blast
        qed
      qed
    qed
  qed
qed

text \<open>What the sample entry points answer on the globals they meet.\<close>

lemma plain_host_answers:
  "InitModule plain_host (nullptr, 0) = (Inr True, (nullptr, Suc 0))"
  "Validator plain_host 2 ['''', ''plugin.vst3''] (nullptr, Suc 0)
     = (Inr ['''', ''plugin.vst3''], (nullptr, Suc 0))"
  "Validator_run plain_host ['''', ''plugin.vst3''] (nullptr, Suc 0) = (Inr 0, (nullptr, Suc 0))"
  "DeinitModule plain_host (nullptr, Suc 0) = (Inr True, (nullptr, 0))"
  by (simp_all add: plain_host_def)

lemma unloadable_host_answers:
  "InitModule unloadable_host (nullptr, 0) = (Inl (Thrown 4), (nullptr, 0))"
  by (simp add: unloadable_host_def)

lemma refusing_host_answers:
  "InitModule refusing_host (nullptr, 0) = (Inr True, (nullptr, Suc 0))"
  "Validator refusing_host 2 ['''', ''plugin.vst3''] (nullptr, Suc 0)
     = (Inl (Thrown 2), (nullptr, Suc 0))"
  by (simp_all add: refusing_host_def plain_host_def)

lemma aborting_host_answers:
  "InitModule aborting_host (nullptr, 0) = (Inr True, (nullptr, Suc 0))"
  "Validator aborting_host 2 ['''', ''plugin.vst3''] (nullptr, Suc 0)
     = (Inr ['''', ''plugin.vst3''], (nullptr, Suc 0))"
  "Validator_run aborting_host ['''', ''plugin.vst3''] (nullptr, Suc 0)
     = (Inl (Thrown 1), (nullptr, Suc 0))"
  by (simp_all add: aborting_host_def plain_host_def)

lemma stuck_host_answers:
  "InitModule stuck_host (nullptr, 0) = (Inr True, (nullptr, Suc 0))"
  "Validator stuck_host 2 ['''', ''plugin.vst3''] (nullptr, Suc 0)
     = (Inr ['''', ''plugin.vst3''], (nullptr, Suc 0))"
  "Validator_run stuck_host ['''', ''plugin.vst3''] (nullptr, Suc 0) = (Inr 0, (nullptr, Suc 0))"
  "DeinitModule stuck_host (nullptr, Suc 0) = (Inl NoReturn, (nullptr, Suc 0))"
  by (simp_all add: stuck_host_def plain_host_def)




lemma storing_host_answers:
  "InitModule storing_host (nullptr, 0) = (Inr True, (Address 4096, Suc 0))"
  "Validator storing_host 2 ['''', ''plugin.vst3''] (Address 4096, Suc 0)
     = (Inr ['''', ''plugin.vst3''], (Address 4096, Suc 0))"
  "Validator_run storing_host ['''', ''plugin.vst3''] (Address 4096, Suc 0)
     = (Inr 0, (Address 4096, Suc 0))"
  "DeinitModule storing_host (Address 4096, Suc 0) = (Inr True, (Address 4096, 0))"
  by (simp_all add: storing_host_def plain_host_def)

lemma restoring_host_answers:
  "InitModule restoring_host (nullptr, 0) = (Inr True, (Address 4096, Suc 0))"
  "Validator restoring_host 2 ['''', ''plugin.vst3''] (Address 4096, Suc 0)
     = (Inr ['''', ''plugin.vst3''], (Address 4096, Suc 0))"
  "Validator_run restoring_host ['''', ''plugin.vst3''] (Address 4096, Suc 0)
     = (Inr 0, (Address 4096, Suc 0))"
  "DeinitModule restoring_host (Address 4096, Suc 0) = (Inr True, (nullptr, 0))"
  by (simp_all add: restoring_host_def storing_host_def plain_host_def)

lemma restoring_aborting_host_answers:
  "InitModule restoring_aborting_host (nullptr, 0) = (Inr True, (Address 4096, Suc 0))"
  "Validator restoring_aborting_host 2 ['''', ''plugin.vst3''] (Address 4096, Suc 0)
     = (Inr ['''', ''plugin.vst3''], (Address 4096, Suc 0))"
  "Validator_run restoring_aborting_host ['''', ''plugin.vst3''] (Address 4096, Suc 0)
     = (Inl (Thrown 1), (Address 4096, Suc 0))"
  by (simp_all add: restoring_aborting_host_def restoring_host_def storing_host_def
      plain_host_def)

lemma initial_globals: "moduleHandle (initial w) = nullptr" "world (initial w) = w"
  by (simp_all add: initial_def)

subsection \<open>Pairing of \<^verbatim>\<open>InitModule\<close> and \<^verbatim>\<open>DeinitModule\<close>\<close>

text \<open>
  Claim C1 says that every execution of \<open>run\<close> calls \<^verbatim>\<open>InitModule\<close> exactly once and
  \<^verbatim>\<open>DeinitModule\<close> exactly once. An execution in which the validator's \<open>run\<close> method
  throws calls \<^verbatim>\<open>InitModule\<close> once and \<^verbatim>\<open>DeinitModule\<close> not at all: the statement
  \<^verbatim>\<open>DeinitModule ();\<close> is not reached.
\<close>

theorem run_init_deinit_counts_counterexample:
  "\<not> (count_list (events_of_run aborting_host 2 ['''', ''plugin.vst3''] (initial 0))
          CallInitModule = 1
      \<and> count_list (events_of_run aborting_host 2 ['''', ''plugin.vst3''] (initial 0))
          CallDeinitModule = 1)"
  by (simp add: shim_defs aborting_host_def plain_host_def)

text \<open>
  Claim C1, amended: every execution of \<open>run\<close> calls \<^verbatim>\<open>InitModule\<close> exactly once, on the
  globals it was entered with. It calls \<^verbatim>\<open>DeinitModule\<close> exactly once, on the globals
  the validator's \<open>run\<close> method left, when \<^verbatim>\<open>InitModule\<close>, the constructor and the
  \<open>run\<close> method have all returned; then the two counts are equal. It does not call
  \<^verbatim>\<open>DeinitModule\<close> at all when one of these three does not return: then the globals at
  the end of \<open>run\<close> are those left by that call.
\<close>

theorem run_init_deinit_counts:
  "count_list (events_of_run env argc argv s) CallInitModule = 1
   \<and> (InitModule env (moduleHandle s, world s) = (Inl x, g1) \<longrightarrow>
        count_list (events_of_run env argc argv s) CallDeinitModule = 0
        \<and> (moduleHandle (snd (run env argc argv s)), world (snd (run env argc argv s))) = g1)
   \<and> (InitModule env (moduleHandle s, world s) = (Inr b, g1)
        \<and> Validator env argc argv g1 = (Inl x, g2) \<longrightarrow>
        count_list (events_of_run env argc argv s) CallDeinitModule = 0
        \<and> (moduleHandle (snd (run env argc argv s)), world (snd (run env argc argv s))) = g2)
   \<and> (InitModule env (moduleHandle s, world s) = (Inr b, g1)
        \<and> Validator env argc argv g1 = (Inr v, g2)
        \<and> Validator_run env v g2 = (Inl x, g3) \<longrightarrow>
        count_list (events_of_run env argc argv s) CallDeinitModule = 0
        \<and> (moduleHandle (snd (run env argc argv s)), world (snd (run env argc argv s))) = g3)
   \<and> (InitModule env (moduleHandle s, world s) = (Inr b, g1)
        \<and> Validator env argc argv g1 = (Inr v, g2)
        \<and> Validator_run env v g2 = (Inr r, g3) \<longrightarrow>
        count_list (events_of_run env argc argv s) CallDeinitModule = 1
        \<and> (moduleHandle (snd (run env argc argv s)), world (snd (run env argc argv s)))
            = snd (DeinitModule env g3))"
proof -
  have init_fails: "InitModule env (moduleHandle s, world s) = (Inl x, g1) \<longrightarrow>
        count_list (events_of_run env argc argv s) CallDeinitModule = 0
        \<and> (moduleHandle (snd (run env argc argv s)), world (snd (run env argc argv s))) = g1"
  proof (intro impI)
    assume i: "InitModule env (moduleHandle s, world s) = (Inl x, g1)"
    show "count_list (events_of_run env argc argv s) CallDeinitModule = 0
        \<and> (moduleHandle (snd (run env argc argv s)), world (snd (run env argc argv s))) = g1"
      by (simp add: events_of_run_def run_when_InitModule_fails [OF i])
  qed
  have constructor_fails: "InitModule env (moduleHandle s, world s) = (Inr b, g1)
        \<and> Validator env argc argv g1 = (Inl x, g2) \<longrightarrow>
        count_list (events_of_run env argc argv s) CallDeinitModule = 0
        \<and> (moduleHandle (snd (run env argc argv s)), world (snd (run env argc argv s))) = g2"
  proof (intro impI, elim conjE)
    assume i: "InitModule env (moduleHandle s, world s) = (Inr b, g1)"
      and c: "Validator env argc argv g1 = (Inl x, g2)"
    show "count_list (events_of_run env argc argv s) CallDeinitModule = 0
        \<and> (moduleHandle (snd (run env argc argv s)), world (snd (run env argc argv s))) = g2"
      by (simp add: events_of_run_def run_when_constructor_fails [OF i c])
  qed
  have method_fails: "InitModule env (moduleHandle s, world s) = (Inr b, g1)
        \<and> Validator env argc argv g1 = (Inr v, g2)
        \<and> Validator_run env v g2 = (Inl x, g3) \<longrightarrow>
        count_list (events_of_run env argc argv s) CallDeinitModule = 0
        \<and> (moduleHandle (snd (run env argc argv s)), world (snd (run env argc argv s))) = g3"
  proof (intro impI, elim conjE)
    assume i: "InitModule env (moduleHandle s, world s) = (Inr b, g1)"
      and c: "Validator env argc argv g1 = (Inr v, g2)"
      and m: "Validator_run env v g2 = (Inl x, g3)"
    show "count_list (events_of_run env argc argv s) CallDeinitModule = 0
        \<and> (moduleHandle (snd (run env argc argv s)), world (snd (run env argc argv s))) = g3"
      by (simp add: events_of_run_def run_when_method_fails [OF i c m])
  qed
  have teardown: "InitModule env (moduleHandle s, world s) = (Inr b, g1)
        \<and> Validator env argc argv g1 = (Inr v, g2)
        \<and> Validator_run env v g2 = (Inr r, g3) \<longrightarrow>
        count_list (events_of_run env argc argv s) CallDeinitModule = 1
        \<and> (moduleHandle (snd (run env argc argv s)), world (snd (run env argc argv s)))
            = snd (DeinitModule env g3)"
  proof (intro impI, elim conjE)
    assume i: "InitModule env (moduleHandle s, world s) = (Inr b, g1)"
      and c: "Validator env argc argv g1 = (Inr v, g2)"
      and m: "Validator_run env v g2 = (Inr r, g3)"
    show "count_list (events_of_run env argc argv s) CallDeinitModule = 1
        \<and> (moduleHandle (snd (run env argc argv s)), world (snd (run env argc argv s)))
            = snd (DeinitModule env g3)"
      by (simp add: events_of_run_def run_reaching_DeinitModule [OF i c m])
  qed
  from InitModule_logged_once [of env argc argv s]
    init_fails constructor_fails method_fails teardown
  show ?thesis by (intro conjI)
qed

theorem run_init_deinit_counts_witness:
  "count_list (events_of_run plain_host 2 ['''', ''plugin.vst3''] (initial 0)) CallInitModule = 1
   \<and> count_list (events_of_run plain_host 2 ['''', ''plugin.vst3''] (initial 0))
        CallDeinitModule = 1
   \<and> (moduleHandle (snd (run plain_host 2 ['''', ''plugin.vst3''] (initial 0))),
       world (snd (run plain_host 2 ['''', ''plugin.vst3''] (initial 0)))) = (nullptr, 0)
   \<and> count_list (events_of_run aborting_host 2 ['''', ''plugin.vst3''] (initial 0))
        CallDeinitModule = 0
   \<and> (moduleHandle (snd (run aborting_host 2 ['''', ''plugin.vst3''] (initial 0))),
       world (snd (run aborting_host 2 ['''', ''plugin.vst3''] (initial 0)))) = (nullptr, 1)
   \<and> count_list (events_of_run refusing_host 2 ['''', ''plugin.vst3''] (initial 0))
        CallDeinitModule = 0
   \<and> (moduleHandle (snd (run refusing_host 2 ['''', ''plugin.vst3''] (initial 0))),
       world (snd (run refusing_host 2 ['''', ''plugin.vst3''] (initial 0)))) = (nullptr, 1)
   \<and> count_list (events_of_run unloadable_host 2 ['''', ''plugin.vst3''] (initial 0))
        CallDeinitModule = 0
   \<and> (moduleHandle (snd (run unloadable_host 2 ['''', ''plugin.vst3''] (initial 0))),
       world (snd (run unloadable_host 2 ['''', ''plugin.vst3''] (initial 0)))) = (nullptr, 0)"
  using
    run_init_deinit_counts [where env = plain_host and argc = 2
      and argv = "['''', ''plugin.vst3'']" and s = "initial 0" and b = True
      and ?g1.0 = "(nullptr, 1)" and v = "['''', ''plugin.vst3'']" and ?g2.0 = "(nullptr, 1)"
      and r = 0 and ?g3.0 = "(nullptr, 1)"]
    run_init_deinit_counts [where env = aborting_host and argc = 2
      and argv = "['''', ''plugin.vst3'']" and s = "initial 0" and b = True
      and ?g1.0 = "(nullptr, 1)" and v = "['''', ''plugin.vst3'']" and ?g2.0 = "(nullptr, 1)"
      and x = "Thrown 1" and ?g3.0 = "(nullptr, 1)"]
    run_init_deinit_counts [where env = refusing_host and argc = 2
      and argv = "['''', ''plugin.vst3'']" and s = "initial 0" and b = True
      and ?g1.0 = "(nullptr, 1)" and x = "Thrown 2" and ?g2.0 = "(nullptr, 1)"]
    run_init_deinit_counts [where env = unloadable_host and argc = 2
      and argv = "['''', ''plugin.vst3'']" and s = "initial 0"
      and x = "Thrown 4" and ?g1.0 = "(nullptr, 0)"]
  by (simp add: initial_globals plain_host_answers aborting_host_answers
      refusing_host_answers unloadable_host_answers)

subsection \<open>The result of \<open>run\<close>\<close>



subsection \<open>Teardown on the paths out of \<open>run\<close>\<close>

text \<open>
  Claim C3 says that \<^verbatim>\<open>DeinitModule\<close> is called on every path out of \<open>run\<close>, also when
  the validator's \<open>run\<close> method terminates exceptionally. On that path \<^verbatim>\<open>InitModule\<close>
  has been called and \<^verbatim>\<open>DeinitModule\<close> is not.
\<close>

theorem run_teardown_counterexample:
  "\<not> (CallInitModule \<in> set (events_of_run aborting_host 2 ['''', ''plugin.vst3''] (initial 0)) \<longrightarrow>
       CallDeinitModule \<in> set (events_of_run aborting_host 2 ['''', ''plugin.vst3''] (initial 0)))"
  by (simp add: shim_defs aborting_host_def plain_host_def)

text \<open>
  Claim C3, amended: \<^verbatim>\<open>DeinitModule\<close> is called exactly on the paths on which
  \<^verbatim>\<open>InitModule\<close>, the validator's construction and its \<open>run\<close> method have all
  returned. So on every path on which \<open>run\<close> returns, \<^verbatim>\<open>DeinitModule\<close> has been called
  on the globals the \<open>run\<close> method left, has returned, and has left the globals \<open>run\<close>
  ends with. When \<^verbatim>\<open>InitModule\<close> has returned and the validator's construction or its
  \<open>run\<close> method fails, that failure leaves \<open>run\<close> as it is, with the globals that call
  left, and \<^verbatim>\<open>DeinitModule\<close> is not called; nor is it called when \<^verbatim>\<open>InitModule\<close> itself
  fails.
\<close>

theorem run_teardown_paths:
  "(run env argc argv s = (Inr r, s') \<longrightarrow>
      (\<exists>b g1 v g2 g3 b'.
         InitModule env (moduleHandle s, world s) = (Inr b, g1)
         \<and> Validator env argc argv g1 = (Inr v, g2)
         \<and> Validator_run env v g2 = (Inr r, g3)
         \<and> DeinitModule env g3 = (Inr b', (moduleHandle s', world s'))))
   \<and> (InitModule env (moduleHandle s, world s) = (Inr b, g1)
        \<and> Validator env argc argv g1 = (Inr v, g2)
        \<and> Validator_run env v g2 = (Inr r, g3) \<longrightarrow>
        run env argc argv s =
          (case fst (DeinitModule env g3) of Inl y \<Rightarrow> Inl y | Inr b' \<Rightarrow> Inr r,
           \<lparr>moduleHandle = fst (snd (DeinitModule env g3)),
            world = snd (snd (DeinitModule env g3)),
            trace = trace s @ [CallInitModule, ConstructValidator argc argv,
                               CallValidatorRun, CallDeinitModule]\<rparr>))
   \<and> (call_InitModule env s = (Inr b, s1)
        \<and> validator_expression env argc argv s1 = (Inl x, s2) \<longrightarrow>
        run env argc argv s = (Inl x, s2)
        \<and> CallDeinitModule \<notin> set (events_of_run env argc argv s))
   \<and> (InitModule env (moduleHandle s, world s) = (Inr b, g1)
        \<and> Validator env argc argv g1 = (Inr v, g2)
        \<and> Validator_run env v g2 = (Inl x, g3) \<longrightarrow>
        run env argc argv s =
          (Inl x, \<lparr>moduleHandle = fst g3, world = snd g3,
                   trace = trace s @ [CallInitModule, ConstructValidator argc argv,
                                      CallValidatorRun]\<rparr>))
   \<and> (InitModule env (moduleHandle s, world s) = (Inr b, g1)
        \<and> Validator env argc argv g1 = (Inl x, g2) \<longrightarrow>
        run env argc argv s =
          (Inl x, \<lparr>moduleHandle = fst g2, world = snd g2,
                   trace = trace s @ [CallInitModule, ConstructValidator argc argv]\<rparr>))
   \<and> (InitModule env (moduleHandle s, world s) = (Inl x, g1) \<longrightarrow>
        run env argc argv s =
          (Inl x, \<lparr>moduleHandle = fst g1, world = snd g1,
                   trace = trace s @ [CallInitModule]\<rparr>))"
proof (intro conjI)
  show "run env argc argv s = (Inr r, s') \<longrightarrow>
      (\<exists>b g1 v g2 g3 b'.
         InitModule env (moduleHandle s, world s) = (Inr b, g1)
         \<and> Validator env argc argv g1 = (Inr v, g2)
         \<and> Validator_run env v g2 = (Inr r, g3)
         \<and> DeinitModule env g3 = (Inr b', (moduleHandle s', world s')))"
    by (intro impI) (rule run_returns_only_after_teardown)
next
  show "call_InitModule env s = (Inr b, s1)
        \<and> validator_expression env argc argv s1 = (Inl x, s2) \<longrightarrow>
        run env argc argv s = (Inl x, s2)
        \<and> CallDeinitModule \<notin> set (events_of_run env argc argv s)"
    unfolding events_cases run_cases validator_expression_cases
    by (auto split: prod.splits sum.splits)
qed (blast intro: run_reaching_DeinitModule run_when_method_fails
      run_when_constructor_fails run_when_InitModule_fails)+

theorem run_teardown_paths_witness:
  "run plain_host 2 ['''', ''plugin.vst3''] (initial 0) =
     (Inr 0, \<lparr>moduleHandle = nullptr, world = 0,
              trace = [CallInitModule, ConstructValidator 2 ['''', ''plugin.vst3''],
                       CallValidatorRun, CallDeinitModule]\<rparr>)
   \<and> (\<exists>b g1 v g2 g3 b'.
         InitModule plain_host (nullptr, 0) = (Inr b, g1)
         \<and> Validator plain_host 2 ['''', ''plugin.vst3''] g1 = (Inr v, g2)
         \<and> Validator_run plain_host v g2 = (Inr 0, g3)
         \<and> DeinitModule plain_host g3 = (Inr b', (nullptr, 0)))
   \<and> run aborting_host 2 ['''', ''plugin.vst3''] (initial 0) =
       (Inl (Thrown 1),
        \<lparr>moduleHandle = nullptr, world = 1,
         trace = [CallInitModule, ConstructValidator 2 ['''', ''plugin.vst3''],
                  CallValidatorRun]\<rparr>)
   \<and> run refusing_host 2 ['''', ''plugin.vst3''] (initial 0) =
       (Inl (Thrown 2),
        \<lparr>moduleHandle = nullptr, world = 1,
         trace = [CallInitModule, ConstructValidator 2 ['''', ''plugin.vst3'']]\<rparr>)
   \<and> CallDeinitModule \<notin> set (events_of_run refusing_host 2 ['''', ''plugin.vst3''] (initial 0))
   \<and> run unloadable_host 2 ['''', ''plugin.vst3''] (initial 0) =
       (Inl (Thrown 4), \<lparr>moduleHandle = nullptr, world = 0, trace = [CallInitModule]\<rparr>)"
proof -
  let ?argv = "['''', ''plugin.vst3'']"
  let ?final = "\<lparr>moduleHandle = nullptr, world = 0::nat,
              trace = [CallInitModule, ConstructValidator 2 ?argv,
                       CallValidatorRun, CallDeinitModule]\<rparr>"
  let ?s1 = "\<lparr>moduleHandle = nullptr, world = 1::nat, trace = [CallInitModule]\<rparr>"
  let ?s2 = "\<lparr>moduleHandle = nullptr, world = 1::nat,
              trace = [CallInitModule, ConstructValidator 2 ?argv]\<rparr>"
  have returns: "run plain_host 2 ?argv (initial 0) = (Inr 0, ?final)"
    using run_teardown_paths [where env = plain_host and argc = 2 and argv = ?argv
        and s = "initial 0" and b = True and ?g1.0 = "(nullptr, 1)" and v = ?argv
        and ?g2.0 = "(nullptr, 1)" and r = 0 and ?g3.0 = "(nullptr, 1)"]
    by (simp add: initial_globals plain_host_answers) (simp add: initial_def)
  have torn_down: "\<exists>b g1 v g2 g3 b'.
         InitModule plain_host (nullptr, 0) = (Inr b, g1)
         \<and> Validator plain_host 2 ?argv g1 = (Inr v, g2)
         \<and> Validator_run plain_host v g2 = (Inr 0, g3)
         \<and> DeinitModule plain_host g3 = (Inr b', (nullptr, 0))"
    using returns
      run_teardown_paths [where env = plain_host and argc = 2 and argv = ?argv
        and s = "initial 0" and r = 0 and s' = ?final]
    by (simp add: initial_globals)
  have aborts: "run aborting_host 2 ?argv (initial 0) =
       (Inl (Thrown 1),
        \<lparr>moduleHandle = nullptr, world = 1,
         trace = [CallInitModule, ConstructValidator 2 ?argv, CallValidatorRun]\<rparr>)"
    using run_teardown_paths [where env = aborting_host and argc = 2 and argv = ?argv
        and s = "initial 0" and b = True and ?g1.0 = "(nullptr, 1)" and v = ?argv
        and ?g2.0 = "(nullptr, 1)" and x = "Thrown 1" and ?g3.0 = "(nullptr, 1)"]
    by (simp add: initial_globals aborting_host_answers) (simp add: initial_def)
  have init: "call_InitModule refusing_host (initial 0) = (Inr True, ?s1)"
    by (simp add: shim_defs refusing_host_def plain_host_def)
  have throws: "validator_expression refusing_host 2 ?argv ?s1 = (Inl (Thrown 2), ?s2)"
    by (simp add: shim_defs refusing_host_def plain_host_def)
  have refuses: "run refusing_host 2 ?argv (initial 0) = (Inl (Thrown 2), ?s2)
      \<and> CallDeinitModule \<notin> set (events_of_run refusing_host 2 ?argv (initial 0))"
    using init throws
      run_teardown_paths [where env = refusing_host and argc = 2 and argv = ?argv
        and s = "initial 0" and b = True and ?s1.0 = ?s1 and x = "Thrown 2" and ?s2.0 = ?s2]
    by blast
  have unloadable: "run unloadable_host 2 ?argv (initial 0) =
       (Inl (Thrown 4), \<lparr>moduleHandle = nullptr, world = 0, trace = [CallInitModule]\<rparr>)"
    using run_teardown_paths [where env = unloadable_host and argc = 2 and argv = ?argv
        and s = "initial 0" and x = "Thrown 4" and ?g1.0 = "(nullptr, 0)"]
    by (simp add: initial_globals unloadable_host_answers) (simp add: initial_def)
  from returns torn_down aborts refuses unloadable show ?thesis by blast
qed

subsection \<open>Order of the calls\<close>

text \<open>
  Claim C4 says that in every execution of \<open>run\<close> the four calls happen, each once, in the
  order \<^verbatim>\<open>InitModule\<close>, construction, \<open>run\<close> method, \<^verbatim>\<open>DeinitModule\<close>, and that the
  result is then returned. When the constructor throws, the last two calls are skipped and
  nothing is returned.
\<close>

theorem run_event_order_counterexample:
  "\<not> (events_of_run refusing_host 2 ['''', ''plugin.vst3''] (initial 0) =
        [CallInitModule, ConstructValidator 2 ['''', ''plugin.vst3''], CallValidatorRun,
         CallDeinitModule])
   \<and> fst (run refusing_host 2 ['''', ''plugin.vst3''] (initial 0)) = Inl (Thrown 2)"
  by (simp add: shim_defs refusing_host_def plain_host_def)

text \<open>
  Claim C4, amended: in every execution of \<open>run\<close>, \<^verbatim>\<open>InitModule\<close> is called first, on
  the globals \<open>run\<close> was entered with. If it returns, the validator is constructed from
  \<open>argc\<close> and \<open>argv\<close> on the globals it left. If the constructor returns, the
  \<open>run\<close> method of the object it made is called on the globals the constructor left. If
  that returns \<open>r\<close>, \<^verbatim>\<open>DeinitModule\<close> is called on the globals it left, and if
  \<^verbatim>\<open>DeinitModule\<close> returns, \<open>run\<close> returns \<open>r\<close>. The first call that does not return ends
  the execution with its failure: the calls after it are skipped. No call is made twice or
  out of this order.
\<close>

theorem run_event_order:
  "(InitModule env (moduleHandle s, world s) = (Inl x, g1) \<longrightarrow>
      run env argc argv s =
        (Inl x, \<lparr>moduleHandle = fst g1, world = snd g1,
                 trace = trace s @ [CallInitModule]\<rparr>))
   \<and> (InitModule env (moduleHandle s, world s) = (Inr b, g1)
        \<and> Validator env argc argv g1 = (Inl x, g2) \<longrightarrow>
        run env argc argv s =
          (Inl x, \<lparr>moduleHandle = fst g2, world = snd g2,
                   trace = trace s @ [CallInitModule, ConstructValidator argc argv]\<rparr>))
   \<and> (InitModule env (moduleHandle s, world s) = (Inr b, g1)
        \<and> Validator env argc argv g1 = (Inr v, g2)
        \<and> Validator_run env v g2 = (Inl x, g3) \<longrightarrow>
        run env argc argv s =
          (Inl x, \<lparr>moduleHandle = fst g3, world = snd g3,
                   trace = trace s @ [CallInitModule, ConstructValidator argc argv,
                                      CallValidatorRun]\<rparr>))
   \<and> (InitModule env (moduleHandle s, world s) = (Inr b, g1)
        \<and> Validator env argc argv g1 = (Inr v, g2)
        \<and> Validator_run env v g2 = (Inr r, g3)
        \<and> DeinitModule env g3 = (Inl x, g4) \<longrightarrow>
        run env argc argv s =
          (Inl x, \<lparr>moduleHandle = fst g4, world = snd g4,
                   trace = trace s @ [CallInitModule, ConstructValidator argc argv,
                                      CallValidatorRun, CallDeinitModule]\<rparr>))
   \<and> (InitModule env (moduleHandle s, world s) = (Inr b, g1)
        \<and> Validator env argc argv g1 = (Inr v, g2)
        \<and> Validator_run env v g2 = (Inr r, g3)
        \<and> DeinitModule env g3 = (Inr b', g4) \<longrightarrow>
        run env argc argv s =
          (Inr r, \<lparr>moduleHandle = fst g4, world = snd g4,
                   trace = trace s @ [CallInitModule, ConstructValidator argc argv,
                                      CallValidatorRun, CallDeinitModule]\<rparr>))"
  by (intro conjI)
    (blast intro: run_when_InitModule_fails run_when_constructor_fails
      run_when_method_fails run_when_DeinitModule_fails run_when_all_return)+

theorem run_event_order_witness:
  "run unloadable_host 2 ['''', ''plugin.vst3''] (initial 0) =
     (Inl (Thrown 4), \<lparr>moduleHandle = nullptr, world = 0, trace = [CallInitModule]\<rparr>)
   \<and> run refusing_host 2 ['''', ''plugin.vst3''] (initial 0) =
       (Inl (Thrown 2),
        \<lparr>moduleHandle = nullptr, world = 1,
         trace = [CallInitModule, ConstructValidator 2 ['''', ''plugin.vst3'']]\<rparr>)
   \<and> run aborting_host 2 ['''', ''plugin.vst3''] (initial 0) =
       (Inl (Thrown 1),
        \<lparr>moduleHandle = nullptr, world = 1,
         trace = [CallInitModule, ConstructValidator 2 ['''', ''plugin.vst3''],
                  CallValidatorRun]\<rparr>)
   \<and> run stuck_host 2 ['''', ''plugin.vst3''] (initial 0) =
       (Inl NoReturn,
        \<lparr>moduleHandle = nullptr, world = 1,
         trace = [CallInitModule, ConstructValidator 2 ['''', ''plugin.vst3''],
                  CallValidatorRun, CallDeinitModule]\<rparr>)
   \<and> run plain_host 2 ['''', ''plugin.vst3''] (initial 0) =
       (Inr 0,
        \<lparr>moduleHandle = nullptr, world = 0,
         trace = [CallInitModule, ConstructValidator 2 ['''', ''plugin.vst3''],
                  CallValidatorRun, CallDeinitModule]\<rparr>)
   \<and> run restoring_host 2 ['''', ''plugin.vst3''] (initial 0) =
       (Inr 0,
        \<lparr>moduleHandle = nullptr, world = 0,
         trace = [CallInitModule, ConstructValidator 2 ['''', ''plugin.vst3''],
                  CallValidatorRun, CallDeinitModule]\<rparr>)
   \<and> run restoring_aborting_host 2 ['''', ''plugin.vst3''] (initial 0) =
       (Inl (Thrown 1),
        \<lparr>moduleHandle = Address 4096, world = 1,
         trace = [CallInitModule, ConstructValidator 2 ['''', ''plugin.vst3''],
                  CallValidatorRun]\<rparr>)"
  using
    run_event_order [where env = unloadable_host and argc = 2
      and argv = "['''', ''plugin.vst3'']" and s = "initial 0"
      and x = "Thrown 4" and ?g1.0 = "(nullptr, 0)"]
    run_event_order [where env = refusing_host and argc = 2
      and argv = "['''', ''plugin.vst3'']" and s = "initial 0" and b = True
      and ?g1.0 = "(nullptr, 1)" and x = "Thrown 2" and ?g2.0 = "(nullptr, 1)"]
    run_event_order [where env = aborting_host and argc = 2
      and argv = "['''', ''plugin.vst3'']" and s = "initial 0" and b = True
      and ?g1.0 = "(nullptr, 1)" and v = "['''', ''plugin.vst3'']" and ?g2.0 = "(nullptr, 1)"
      and x = "Thrown 1" and ?g3.0 = "(nullptr, 1)"]
    run_event_order [where env = stuck_host and argc = 2
      and argv = "['''', ''plugin.vst3'']" and s = "initial 0" and b = True
      and ?g1.0 = "(nullptr, 1)" and v = "['''', ''plugin.vst3'']" and ?g2.0 = "(nullptr, 1)"
      and r = 0 and ?g3.0 = "(nullptr, 1)" and x = NoReturn and ?g4.0 = "(nullptr, 1)"]
    run_event_order [where env = plain_host and argc = 2
      and argv = "['''', ''plugin.vst3'']" and s = "initial 0" and b = True
      and ?g1.0 = "(nullptr, 1)" and v = "['''', ''plugin.vst3'']" and ?g2.0 = "(nullptr, 1)"
      and r = 0 and ?g3.0 = "(nullptr, 1)" and b' = True and ?g4.0 = "(nullptr, 0)"]
    run_event_order [where env = restoring_host and argc = 2
      and argv = "['''', ''plugin.vst3'']" and s = "initial 0" and b = True
      and ?g1.0 = "(Address 4096, 1)" and v = "['''', ''plugin.vst3'']"
      and ?g2.0 = "(Address 4096, 1)" and r = 0 and ?g3.0 = "(Address 4096, 1)"
      and b' = True and ?g4.0 = "(nullptr, 0)"]
    run_event_order [where env = restoring_aborting_host and argc = 2
      and argv = "['''', ''plugin.vst3'']" and s = "initial 0" and b = True
      and ?g1.0 = "(Address 4096, 1)" and v = "['''', ''plugin.vst3'']"
      and ?g2.0 = "(Address 4096, 1)" and x = "Thrown 1" and ?g3.0 = "(Address 4096, 1)"]
  by (simp add: initial_globals unloadable_host_answers refusing_host_answers
      aborting_host_answers stuck_host_answers plain_host_answers
      restoring_host_answers restoring_aborting_host_answers)
    (simp add: initial_def)

subsection \<open>The arguments handed to the validator\<close>

text \<open>
  Claim C5: \<open>run\<close> constructs the validator with exactly the \<open>argc\<close> and \<open>argv\<close> it
  received. The constructor is consulted at no other arguments: whatever it would do on
  others, the execution is the same. It is applied to \<open>argc\<close> and \<open>argv\<close> once
  \<^verbatim>\<open>InitModule\<close> has returned, on the globals that left: its failure is the failure of
  \<open>run\<close>, and the object it returns is the one whose \<open>run\<close> method is called and whose
  result is returned.
\<close>

theorem run_forwards_arguments:
  "run (env\<lparr>Validator :=
              (\<lambda>c a. if c = argc \<and> a = argv then Validator env c a else K c a)\<rparr>)
       argc argv s
     = run env argc argv s
   \<and> (InitModule env (moduleHandle s, world s) = (Inr b, g1)
        \<and> Validator env argc argv g1 = (Inl x, g2) \<longrightarrow>
        run env argc argv s =
          (Inl x, \<lparr>moduleHandle = fst g2, world = snd g2,
                   trace = trace s @ [CallInitModule, ConstructValidator argc argv]\<rparr>))
   \<and> (InitModule env (moduleHandle s, world s) = (Inr b, g1)
        \<and> Validator env argc argv g1 = (Inr v, g2)
        \<and> Validator_run env v g2 = (Inl x, g3) \<longrightarrow>
        run env argc argv s =
          (Inl x, \<lparr>moduleHandle = fst g3, world = snd g3,
                   trace = trace s @ [CallInitModule, ConstructValidator argc argv,
                                      CallValidatorRun]\<rparr>))
   \<and> (InitModule env (moduleHandle s, world s) = (Inr b, g1)
        \<and> Validator env argc argv g1 = (Inr v, g2)
        \<and> Validator_run env v g2 = (Inr r, g3)
        \<and> DeinitModule env g3 = (Inr b', g4) \<longrightarrow>
        run env argc argv s =
          (Inr r, \<lparr>moduleHandle = fst g4, world = snd g4,
                   trace = trace s @ [CallInitModule, ConstructValidator argc argv,
                                      CallValidatorRun, CallDeinitModule]\<rparr>))"
proof (intro conjI)
  show "run (env\<lparr>Validator :=
              (\<lambda>c a. if c = argc \<and> a = argv then Validator env c a else K c a)\<rparr>)
       argc argv s
     = run env argc argv s"
    by (simp add: shim_defs)
qed (blast intro: run_when_constructor_fails run_when_method_fails run_when_all_return)+

theorem run_forwards_arguments_witness:
  "run (plain_host\<lparr>Validator :=
         (\<lambda>c a. if c = 3 \<and> a = [''validator'', ''-l'', ''plugin.vst3'']
                 then Validator plain_host c a else (\<lambda>g. (Inl (Thrown 3), g)))\<rparr>)
       3 [''validator'', ''-l'', ''plugin.vst3''] (initial 0)
     = run plain_host 3 [''validator'', ''-l'', ''plugin.vst3''] (initial 0)
   \<and> run refusing_host 2 ['''', ''plugin.vst3''] (initial 0) =
       (Inl (Thrown 2),
        \<lparr>moduleHandle = nullptr, world = 1,
         trace = [CallInitModule, ConstructValidator 2 ['''', ''plugin.vst3'']]\<rparr>)
   \<and> run aborting_host 2 ['''', ''plugin.vst3''] (initial 0) =
       (Inl (Thrown 1),
        \<lparr>moduleHandle = nullptr, world = 1,
         trace = [CallInitModule, ConstructValidator 2 ['''', ''plugin.vst3''],
                  CallValidatorRun]\<rparr>)
   \<and> run plain_host 2 ['''', ''plugin.vst3''] (initial 0) =
       (Inr 0,
        \<lparr>moduleHandle = nullptr, world = 0,
         trace = [CallInitModule, ConstructValidator 2 ['''', ''plugin.vst3''],
                  CallValidatorRun, CallDeinitModule]\<rparr>)"
proof -
  have only_these: "run (plain_host\<lparr>Validator :=
         (\<lambda>c a. if c = 3 \<and> a = [''validator'', ''-l'', ''plugin.vst3'']
                 then Validator plain_host c a else (\<lambda>g. (Inl (Thrown 3), g)))\<rparr>)
       3 [''validator'', ''-l'', ''plugin.vst3''] (initial 0)
     = run plain_host 3 [''validator'', ''-l'', ''plugin.vst3''] (initial 0)"
    using run_forwards_arguments [where env = plain_host and argc = 3
      and argv = "[''validator'', ''-l'', ''plugin.vst3'']" and s = "initial 0"
      and K = "\<lambda>c a g. (Inl (Thrown 3), g)"]
    by (rule conjunct1)
  have paths: "run refusing_host 2 ['''', ''plugin.vst3''] (initial 0) =
       (Inl (Thrown 2),
        \<lparr>moduleHandle = nullptr, world = 1,
         trace = [CallInitModule, ConstructValidator 2 ['''', ''plugin.vst3'']]\<rparr>)
   \<and> run aborting_host 2 ['''', ''plugin.vst3''] (initial 0) =
       (Inl (Thrown 1),
        \<lparr>moduleHandle = nullptr, world = 1,
         trace = [CallInitModule, ConstructValidator 2 ['''', ''plugin.vst3''],
                  CallValidatorRun]\<rparr>)
   \<and> run plain_host 2 ['''', ''plugin.vst3''] (initial 0) =
       (Inr 0,
        \<lparr>moduleHandle = nullptr, world = 0,
         trace = [CallInitModule, ConstructValidator 2 ['''', ''plugin.vst3''],
                  CallValidatorRun, CallDeinitModule]\<rparr>)"
    using
      run_forwards_arguments [where env = refusing_host and argc = 2
        and argv = "['''', ''plugin.vst3'']" and s = "initial 0" and b = True
        and ?g1.0 = "(nullptr, 1)" and x = "Thrown 2" and ?g2.0 = "(nullptr, 1)"]
      run_forwards_arguments [where env = aborting_host and argc = 2
        and argv = "['''', ''plugin.vst3'']" and s = "initial 0" and b = True
        and ?g1.0 = "(nullptr, 1)" and v = "['''', ''plugin.vst3'']"
        and ?g2.0 = "(nullptr, 1)" and x = "Thrown 1" and ?g3.0 = "(nullptr, 1)"]
      run_forwards_arguments [where env = plain_host and argc = 2
        and argv = "['''', ''plugin.vst3'']" and s = "initial 0" and b = True
        and ?g1.0 = "(nullptr, 1)" and v = "['''', ''plugin.vst3'']"
        and ?g2.0 = "(nullptr, 1)" and r = 0 and ?g3.0 = "(nullptr, 1)" and b' = True
        and ?g4.0 = "(nullptr, 0)"]
    by (simp add: initial_globals refusing_host_answers aborting_host_answers
        plain_host_answers)
      (simp add: initial_def)
  from only_these paths show ?thesis by (rule conjI)
qed

subsection \<open>Determinism\<close>



subsection \<open>The test entry point\<close>

text \<open>
  Claim C7: every call of \<open>testVST3\<close> is the call of \<open>run\<close> with \<open>argc = 2\<close>, the empty
  string as \<open>argv[0]\<close> and the path
  \<^verbatim>\<open>/Users/pebble8888/Library/Audio/Plug-Ins/VST3/again.vst3\<close> as \<open>argv[1]\<close>; it has the
  outcome and the effects of that call, and so returns the integer that call returns.
\<close>

theorem testVST3_calls_run:
  "testVST3 env s =
     run env 2 ['''', ''/Users/pebble8888/Library/Audio/Plug-Ins/VST3/again.vst3''] s
   \<and> (fst (testVST3 env s) = Inr r \<longleftrightarrow>
        fst (run env 2 ['''', ''/Users/pebble8888/Library/Audio/Plug-Ins/VST3/again.vst3''] s)
          = Inr r)"
  by (simp add: testVST3_def)

subsection \<open>The global \<^verbatim>\<open>moduleHandle\<close>\<close>

lemma run_leaves_moduleHandle:
  assumes "run_calls_leave_moduleHandle env argc argv (moduleHandle s, world s)"
  shows "moduleHandle (snd (run env argc argv s)) = moduleHandle s"
proof -
  obtain r1 g1 where i: "InitModule env (moduleHandle s, world s) = (r1, g1)"
    by (cases "InitModule env (moduleHandle s, world s)") blast
  with assms have h1: "fst g1 = moduleHandle s"
    by (simp add: run_calls_leave_moduleHandle_def leaves_moduleHandle_def)
  show ?thesis
  proof (cases r1)
    case (Inl x)
    with i h1 run_when_InitModule_fails [of env s x g1 argc argv] show ?thesis by simp
  next
    case (Inr b)
    with i have i': "InitModule env (moduleHandle s, world s) = (Inr b, g1)" by simp
    obtain r2 g2 where c: "Validator env argc argv g1 = (r2, g2)"
      by (cases "Validator env argc argv g1") blast
    with assms i' have h2: "fst g2 = fst g1"
      by (simp add: run_calls_leave_moduleHandle_def leaves_moduleHandle_def)
    show ?thesis
    proof (cases r2)
      case (Inl x)
      with c h1 h2 run_when_constructor_fails [OF i', of argc argv x g2]
      show ?thesis by simp
    next
      case (Inr v)
      with c have c': "Validator env argc argv g1 = (Inr v, g2)" by simp
      obtain r3 g3 where m: "Validator_run env v g2 = (r3, g3)"
        by (cases "Validator_run env v g2") blast
      with assms i' c' have h3: "fst g3 = fst g2"
        by (simp add: run_calls_leave_moduleHandle_def leaves_moduleHandle_def)
      show ?thesis
      proof (cases r3)
        case (Inl x)
        with m h1 h2 h3 run_when_method_fails [OF i' c', of x g3] show ?thesis by simp
      next
        case (Inr r)
        with m have m': "Validator_run env v g2 = (Inr r, g3)" by simp
        with assms i' c' have "fst (snd (DeinitModule env g3)) = fst g3"
          by (simp add: run_calls_leave_moduleHandle_def leaves_moduleHandle_def)
        with h1 h2 h3 run_reaching_DeinitModule [OF i' c' m'] show ?thesis by simp
      qed
    qed
  qed
qed

lemma session_leaves_moduleHandle:
  "calls_leave_moduleHandle env calls s \<Longrightarrow>
   moduleHandle (session env calls s) = moduleHandle s"
proof (induction calls arbitrary: s)
  case Nil
  then show ?case by simp
next
  case (Cons c cs)
  have step: "moduleHandle (snd (perform env c s)) = moduleHandle s"
    using Cons.prems by (cases c) (simp_all add: testVST3_def run_leaves_moduleHandle)
  obtain r s' where p: "perform env c s = (r, s')"
    by (cases "perform env c s") blast
  show ?case
  proof (cases "r = Inl NoReturn")
    case True
    with p step show ?thesis by simp
  next
    case False
    with p Cons.prems have "calls_leave_moduleHandle env cs s'"
      by (auto split: sum.splits failure.splits)
    from Cons.IH [OF this] p step False show ?thesis
      by (auto split: sum.splits failure.splits)
  qed
qed

text \<open>
  Claim C8 says that after any sequence of calls of \<open>run\<close> and \<open>testVST3\<close>
  \<^verbatim>\<open>moduleHandle\<close> still equals \<^verbatim>\<open>nullptr\<close>. The variable has external linkage, and
  external code that stores to it is called from \<open>run\<close>: after one call of \<open>testVST3\<close>
  with such a module it is no longer \<^verbatim>\<open>nullptr\<close>.
\<close>

theorem moduleHandle_unchanged_counterexample:
  "\<not> (moduleHandle (session storing_host [TestVST3] (initial 0)) = nullptr)"
  by (simp add: shim_defs testVST3_def Let_def storing_host_def plain_host_def)

text \<open>
  Claim C8, amended: \<^verbatim>\<open>moduleHandle\<close> is initialised to \<^verbatim>\<open>nullptr\<close>, and \<open>run\<close> and
  \<open>testVST3\<close> do not write it themselves: a call of \<open>run\<close> leaves in \<^verbatim>\<open>moduleHandle\<close>
  the value that the last external call it made left there. So after any sequence of calls
  of \<open>run\<close> and \<open>testVST3\<close> in which every external call that is made leaves
  \<^verbatim>\<open>moduleHandle\<close> as it found it, \<^verbatim>\<open>moduleHandle\<close> has the value it had before, and
  still equals \<^verbatim>\<open>nullptr\<close> when the sequence starts from the initial state.
\<close>

theorem moduleHandle_unchanged:
  "moduleHandle (initial w) = nullptr
   \<and> (calls_leave_moduleHandle env calls (initial w) \<longrightarrow>
        moduleHandle (session env calls (initial w)) = nullptr)
   \<and> (calls_leave_moduleHandle env calls s \<longrightarrow>
        moduleHandle (session env calls s) = moduleHandle s)
   \<and> (InitModule env (moduleHandle s, world s) = (Inl x, g1) \<longrightarrow>
        moduleHandle (snd (run env argc argv s)) = fst g1)
   \<and> (InitModule env (moduleHandle s, world s) = (Inr b, g1)
        \<and> Validator env argc argv g1 = (Inl x, g2) \<longrightarrow>
        moduleHandle (snd (run env argc argv s)) = fst g2)
   \<and> (InitModule env (moduleHandle s, world s) = (Inr b, g1)
        \<and> Validator env argc argv g1 = (Inr v, g2)
        \<and> Validator_run env v g2 = (Inl x, g3) \<longrightarrow>
        moduleHandle (snd (run env argc argv s)) = fst g3)
   \<and> (InitModule env (moduleHandle s, world s) = (Inr b, g1)
        \<and> Validator env argc argv g1 = (Inr v, g2)
        \<and> Validator_run env v g2 = (Inr r, g3) \<longrightarrow>
        moduleHandle (snd (run env argc argv s)) = fst (snd (DeinitModule env g3)))"
proof (intro conjI impI; (elim conjE)?)
  show "moduleHandle (initial w) = nullptr" by (simp add: initial_def)
next
  assume "calls_leave_moduleHandle env calls (initial w)"
  then show "moduleHandle (session env calls (initial w)) = nullptr"
    by (simp add: session_leaves_moduleHandle initial_def)
next
  assume "calls_leave_moduleHandle env calls s"
  then show "moduleHandle (session env calls s) = moduleHandle s"
    by (rule session_leaves_moduleHandle)
next
  assume i: "InitModule env (moduleHandle s, world s) = (Inl x, g1)"
  show "moduleHandle (snd (run env argc argv s)) = fst g1"
    by (simp add: run_when_InitModule_fails [OF i])
next
  assume i: "InitModule env (moduleHandle s, world s) = (Inr b, g1)"
    and c: "Validator env argc argv g1 = (Inl x, g2)"
  show "moduleHandle (snd (run env argc argv s)) = fst g2"
    by (simp add: run_when_constructor_fails [OF i c])
next
  assume i: "InitModule env (moduleHandle s, world s) = (Inr b, g1)"
    and c: "Validator env argc argv g1 = (Inr v, g2)"
    and m: "Validator_run env v g2 = (Inl x, g3)"
  show "moduleHandle (snd (run env argc argv s)) = fst g3"
    by (simp add: run_when_method_fails [OF i c m])
next
  assume i: "InitModule env (moduleHandle s, world s) = (Inr b, g1)"
    and c: "Validator env argc argv g1 = (Inr v, g2)"
    and m: "Validator_run env v g2 = (Inr r, g3)"
  show "moduleHandle (snd (run env argc argv s)) = fst (snd (DeinitModule env g3))"
    by (simp add: run_reaching_DeinitModule [OF i c m])
qed

theorem moduleHandle_unchanged_witness:
  "calls_leave_moduleHandle aborting_host
     [TestVST3, Run 1 [''validator''], TestVST3] (initial 0)
   \<and> moduleHandle (session aborting_host [TestVST3, Run 1 [''validator''], TestVST3] (initial 0))
       = nullptr
   \<and> moduleHandle (snd (run storing_host 2 ['''', ''plugin.vst3''] (initial 0))) = Address 4096
   \<and> moduleHandle (snd (run restoring_host 2 ['''', ''plugin.vst3''] (initial 0))) = nullptr
   \<and> moduleHandle (snd (run restoring_aborting_host 2 ['''', ''plugin.vst3''] (initial 0)))
       = Address 4096
   \<and> moduleHandle (snd (run refusing_host 2 ['''', ''plugin.vst3''] (initial 0))) = nullptr
   \<and> moduleHandle (snd (run unloadable_host 2 ['''', ''plugin.vst3''] (initial 0))) = nullptr"
proof -
  have leave: "calls_leave_moduleHandle aborting_host
     [TestVST3, Run 1 [''validator''], TestVST3] (initial 0)"
    by (simp add: run_calls_leave_moduleHandle_def leaves_moduleHandle_def shim_defs
        testVST3_def Let_def aborting_host_def plain_host_def)
  with moduleHandle_unchanged
    [where w = 0 and env = aborting_host
      and calls = "[TestVST3, Run 1 [''validator''], TestVST3]" and s = "initial 0"]
  have kept: "moduleHandle
      (session aborting_host [TestVST3, Run 1 [''validator''], TestVST3] (initial 0)) = nullptr"
    by blast
  have single: "moduleHandle (snd (run storing_host 2 ['''', ''plugin.vst3''] (initial 0)))
       = Address 4096
   \<and> moduleHandle (snd (run restoring_host 2 ['''', ''plugin.vst3''] (initial 0))) = nullptr
   \<and> moduleHandle (snd (run restoring_aborting_host 2 ['''', ''plugin.vst3''] (initial 0)))
       = Address 4096
   \<and> moduleHandle (snd (run refusing_host 2 ['''', ''plugin.vst3''] (initial 0))) = nullptr
   \<and> moduleHandle (snd (run unloadable_host 2 ['''', ''plugin.vst3''] (initial 0))) = nullptr"
    using
      moduleHandle_unchanged [where env = storing_host and argc = 2
        and argv = "['''', ''plugin.vst3'']" and s = "initial 0" and b = True
        and ?g1.0 = "(Address 4096, 1)" and v = "['''', ''plugin.vst3'']"
        and ?g2.0 = "(Address 4096, 1)" and r = 0 and ?g3.0 = "(Address 4096, 1)"]
      moduleHandle_unchanged [where env = restoring_host and argc = 2
        and argv = "['''', ''plugin.vst3'']" and s = "initial 0" and b = True
        and ?g1.0 = "(Address 4096, 1)" and v = "['''', ''plugin.vst3'']"
        and ?g2.0 = "(Address 4096, 1)" and r = 0 and ?g3.0 = "(Address 4096, 1)"]
      moduleHandle_unchanged [where env = restoring_aborting_host and argc = 2
        and argv = "['''', ''plugin.vst3'']" and s = "initial 0" and b = True
        and ?g1.0 = "(Address 4096, 1)" and v = "['''', ''plugin.vst3'']"
        and ?g2.0 = "(Address 4096, 1)" and x = "Thrown 1" and ?g3.0 = "(Address 4096, 1)"]
      moduleHandle_unchanged [where env = refusing_host and argc = 2
        and argv = "['''', ''plugin.vst3'']" and s = "initial 0" and b = True
        and ?g1.0 = "(nullptr, 1)" and x = "Thrown 2" and ?g2.0 = "(nullptr, 1)"]
      moduleHandle_unchanged [where env = unloadable_host and argc = 2
        and argv = "['''', ''plugin.vst3'']" and s = "initial 0"
        and x = "Thrown 4" and ?g1.0 = "(nullptr, 0)"]
    by (simp add: initial_globals storing_host_answers restoring_host_answers
        restoring_aborting_host_answers refusing_host_answers unloadable_host_answers)
  from leave kept single show ?thesis by blast
qed

subsection \<open>The boolean results of \<^verbatim>\<open>InitModule\<close> and \<^verbatim>\<open>DeinitModule\<close>\<close>



subsection \<open>Termination\<close>

text \<open>
  Claim C10: \<open>run\<close> and \<open>testVST3\<close> terminate for every input, provided the external
  calls they make terminate. \<open>run\<close> has no loop and no recursive call: it makes at most
  four calls, and it fails to come back exactly when one of the calls it makes does:
  \<^verbatim>\<open>InitModule\<close> on the globals at entry, or, each on the globals left by the call before
  it and only when that has returned, the constructor, the \<open>run\<close> method or
  \<^verbatim>\<open>DeinitModule\<close>. \<open>testVST3\<close> fails to come back exactly when its one call of \<open>run\<close>
  does.
\<close>

theorem run_terminates:
  "(fst (run env argc argv s) = Inl NoReturn \<longleftrightarrow>
      (\<exists>g1. InitModule env (moduleHandle s, world s) = (Inl NoReturn, g1))
      \<or> (\<exists>b g1 g2.
            InitModule env (moduleHandle s, world s) = (Inr b, g1)
            \<and> Validator env argc argv g1 = (Inl NoReturn, g2))
      \<or> (\<exists>b g1 v g2 g3.
            InitModule env (moduleHandle s, world s) = (Inr b, g1)
            \<and> Validator env argc argv g1 = (Inr v, g2)
            \<and> Validator_run env v g2 = (Inl NoReturn, g3))
      \<or> (\<exists>b g1 v g2 r g3 g4.
            InitModule env (moduleHandle s, world s) = (Inr b, g1)
            \<and> Validator env argc argv g1 = (Inr v, g2)
            \<and> Validator_run env v g2 = (Inr r, g3)
            \<and> DeinitModule env g3 = (Inl NoReturn, g4)))
   \<and> (fst (testVST3 env s) = Inl NoReturn \<longleftrightarrow>
        fst (run env 2 ['''', ''/Users/pebble8888/Library/Audio/Plug-Ins/VST3/again.vst3''] s)
          = Inl NoReturn)
   \<and> length (events_of_run env argc argv s) \<le> 4"
proof (intro conjI)
  obtain r1 g1 where i: "InitModule env (moduleHandle s, world s) = (r1, g1)"
    by (cases "InitModule env (moduleHandle s, world s)") blast
  show "fst (run env argc argv s) = Inl NoReturn \<longleftrightarrow>
      (\<exists>g1. InitModule env (moduleHandle s, world s) = (Inl NoReturn, g1))
      \<or> (\<exists>b g1 g2.
            InitModule env (moduleHandle s, world s) = (Inr b, g1)
            \<and> Validator env argc argv g1 = (Inl NoReturn, g2))
      \<or> (\<exists>b g1 v g2 g3.
            InitModule env (moduleHandle s, world s) = (Inr b, g1)
            \<and> Validator env argc argv g1 = (Inr v, g2)
            \<and> Validator_run env v g2 = (Inl NoReturn, g3))
      \<or> (\<exists>b g1 v g2 r g3 g4.
            InitModule env (moduleHandle s, world s) = (Inr b, g1)
            \<and> Validator env argc argv g1 = (Inr v, g2)
            \<and> Validator_run env v g2 = (Inr r, g3)
            \<and> DeinitModule env g3 = (Inl NoReturn, g4))"
  proof (cases r1)
    case (Inl x)
    with i have a: "InitModule env (moduleHandle s, world s) = (Inl x, g1)" by simp
    show ?thesis by (simp del: split_paired_Ex add: a run_when_InitModule_fails [OF a])
  next
    case (Inr b)
    with i have i': "InitModule env (moduleHandle s, world s) = (Inr b, g1)" by simp
    obtain r2 g2 where c: "Validator env argc argv g1 = (r2, g2)"
      by (cases "Validator env argc argv g1") blast
    show ?thesis
    proof (cases r2)
      case (Inl x)
      with c have a: "Validator env argc argv g1 = (Inl x, g2)" by simp
      show ?thesis
        by (simp del: split_paired_Ex add: i' a run_when_constructor_fails [OF i' a])
    next
      case (Inr v)
      with c have c': "Validator env argc argv g1 = (Inr v, g2)" by simp
      obtain r3 g3 where m: "Validator_run env v g2 = (r3, g3)"
        by (cases "Validator_run env v g2") blast
      show ?thesis
      proof (cases r3)
        case (Inl x)
        with m have a: "Validator_run env v g2 = (Inl x, g3)" by simp
        show ?thesis
          by (simp del: split_paired_Ex add: i' c' a run_when_method_fails [OF i' c' a])
      next
        case (Inr r)
        with m have m': "Validator_run env v g2 = (Inr r, g3)" by simp
        obtain r4 g4 where d: "DeinitModule env g3 = (r4, g4)"
          by (cases "DeinitModule env g3") blast
        show ?thesis
          by (cases r4)
            (simp_all del: split_paired_Ex
              add: i' c' m' d run_reaching_DeinitModule [OF i' c' m'])
      qed
    qed
  qed
next
  show "fst (testVST3 env s) = Inl NoReturn \<longleftrightarrow>
        fst (run env 2 ['''', ''/Users/pebble8888/Library/Audio/Plug-Ins/VST3/again.vst3''] s)
          = Inl NoReturn"
    by (simp add: testVST3_def)
next
  show "length (events_of_run env argc argv s) \<le> 4"
    by (simp add: shim_defs split: prod.splits sum.splits)
qed

theorem run_terminates_witness:
  "fst (run (plain_host\<lparr>InitModule := (\<lambda>g. (Inl NoReturn, g))\<rparr>)
          2 ['''', ''plugin.vst3''] (initial 0)) = Inl NoReturn
   \<and> fst (run (plain_host\<lparr>Validator := (\<lambda>argc argv g. (Inl NoReturn, g))\<rparr>)
          2 ['''', ''plugin.vst3''] (initial 0)) = Inl NoReturn
   \<and> fst (run (plain_host\<lparr>Validator_run := (\<lambda>v g. (Inl NoReturn, g))\<rparr>)
          2 ['''', ''plugin.vst3''] (initial 0)) = Inl NoReturn
   \<and> fst (run stuck_host 2 ['''', ''plugin.vst3''] (initial 0)) = Inl NoReturn
   \<and> fst (run aborting_host 2 ['''', ''plugin.vst3''] (initial 0)) \<noteq> Inl NoReturn
   \<and> fst (run plain_host 2 ['''', ''plugin.vst3''] (initial 0)) \<noteq> Inl NoReturn"
proof -
  have hangs: "fst (run (plain_host\<lparr>InitModule := (\<lambda>g. (Inl NoReturn, g))\<rparr>)
          2 ['''', ''plugin.vst3''] (initial 0)) = Inl NoReturn
   \<and> fst (run (plain_host\<lparr>Validator := (\<lambda>argc argv g. (Inl NoReturn, g))\<rparr>)
          2 ['''', ''plugin.vst3''] (initial 0)) = Inl NoReturn
   \<and> fst (run (plain_host\<lparr>Validator_run := (\<lambda>v g. (Inl NoReturn, g))\<rparr>)
          2 ['''', ''plugin.vst3''] (initial 0)) = Inl NoReturn"
    using
      run_terminates [where env = "plain_host\<lparr>InitModule := (\<lambda>g. (Inl NoReturn, g))\<rparr>"
        and argc = 2 and argv = "['''', ''plugin.vst3'']" and s = "initial 0"]
      run_terminates [where
        env = "plain_host\<lparr>Validator := (\<lambda>argc argv g. (Inl NoReturn, g))\<rparr>"
        and argc = 2 and argv = "['''', ''plugin.vst3'']" and s = "initial 0"]
      run_terminates [where
        env = "plain_host\<lparr>Validator_run := (\<lambda>v g. (Inl NoReturn, g))\<rparr>"
        and argc = 2 and argv = "['''', ''plugin.vst3'']" and s = "initial 0"]
    by (auto simp del: split_paired_Ex simp add: initial_globals plain_host_answers)
  have others: "fst (run stuck_host 2 ['''', ''plugin.vst3''] (initial 0)) = Inl NoReturn
   \<and> fst (run aborting_host 2 ['''', ''plugin.vst3''] (initial 0)) \<noteq> Inl NoReturn
   \<and> fst (run plain_host 2 ['''', ''plugin.vst3''] (initial 0)) \<noteq> Inl NoReturn"
    using
      run_terminates [where env = stuck_host and argc = 2
        and argv = "['''', ''plugin.vst3'']" and s = "initial 0"]
      run_terminates [where env = aborting_host and argc = 2
        and argv = "['''', ''plugin.vst3'']" and s = "initial 0"]
      run_terminates [where env = plain_host and argc = 2
        and argv = "['''', ''plugin.vst3'']" and s = "initial 0"]
    by (auto simp del: split_paired_Ex
        simp add: initial_globals stuck_host_answers aborting_host_answers plain_host_answers)
  from hangs others show ?thesis by blast
qed

end
